theory Spec2Isabelle
  imports Main
begin

section \<open>Data model\<close>

text \<open>
  The program is one Go file, \<^verbatim>\<open>cmd/server/main.go\<close>: an HTTP service with two handlers,
  \<^verbatim>\<open>/upload\<close> and \<^verbatim>\<open>/start\<close>, that stores a pod specification and an optional environment
  file under two fixed paths, measures them, and starts the pod with podman.

  Go's \<^verbatim>\<open>[]byte\<close> is a list of 8-bit characters, a path is a string, and a Go \<^verbatim>\<open>error\<close> is
  its message (\<open>None\<close> is \<^verbatim>\<open>nil\<close>): the handlers only test an error against \<^verbatim>\<open>nil\<close> and print
  it with \<^verbatim>\<open>%v\<close>.
\<close>

type_synonym bytes = string
type_synonym path = string
type_synonym go_error = "string option"

definition podYamlPath :: path where
  "podYamlPath = ''/tmp/pod.yaml''"

definition envFilePath :: path where
  "envFilePath = ''/tmp/env''"

text \<open>
  The effects of the program that the handlers can be observed by, in the order in which
  they happen: a completed \<^verbatim>\<open>os.Rename\<close> onto a path, the line
  \<^verbatim>\<open>Measuring %s into PCR[%d]\<close> that \<^verbatim>\<open>measureIntoPCR\<close> logs, and the start and the end of
  the command that \<^verbatim>\<open>cmd.Run()\<close> executes.
\<close>

datatype event =
    Renamed path
  | Measuring path int
  | EngineStarted "string list"
  | EngineExited "string list"

text \<open>
  The process-wide state: the file system (a path holds the bytes of a file or nothing),
  the trace of effects, and whether the channel \<^verbatim>\<open>shutdownCh\<close> has been closed.
\<close>

record world =
  files :: "path \<rightharpoonup> bytes"
  events :: "event list"
  shutdownCh_closed :: bool

text \<open>
  What the operating system answers to the four calls of \<^verbatim>\<open>atomicWriteFile\<close> whose error
  the function tests. A failing \<^verbatim>\<open>f.Write\<close> may have written a prefix of the data: its length
  comes with the error. \<^verbatim>\<open>os.Remove\<close> is called for its effect only (the source drops its
  result), so it has no entry here: it unlinks the path.
\<close>

record io_faults =
  open_err :: go_error
  write_err :: "(nat \<times> string) option"
  sync_err :: go_error
  rename_err :: go_error

definition no_faults :: io_faults where
  "no_faults = \<lparr>open_err = None, write_err = None, sync_err = None, rename_err = None\<rparr>"

section \<open>File operations\<close>

text \<open>
  \<^verbatim>\<open>os.OpenFile(tempFile, O_WRONLY|O_CREATE|O_EXCL, 0600)\<close>: fails when the path exists
  already, or when the system refuses; otherwise the path holds an empty file.
\<close>

definition os_OpenFile_excl :: "io_faults \<Rightarrow> path \<Rightarrow> world \<Rightarrow> string + world" where
  "os_OpenFile_excl io name w =
     (if files w name \<noteq> None then Inl (''open '' @ name @ '': file exists'')
      else case open_err io of
             Some e \<Rightarrow> Inl e
           | None \<Rightarrow> Inr (w\<lparr>files := (files w)(name \<mapsto> [])\<rparr>))"

definition f_Write :: "io_faults \<Rightarrow> path \<Rightarrow> bytes \<Rightarrow> world \<Rightarrow> go_error \<times> world" where
  "f_Write io name data w =
     (case write_err io of
        Some (n, e) \<Rightarrow> (Some e, w\<lparr>files := (files w)(name \<mapsto> take n data)\<rparr>)
      | None \<Rightarrow> (None, w\<lparr>files := (files w)(name \<mapsto> data)\<rparr>))"

definition f_Sync :: "io_faults \<Rightarrow> go_error" where
  "f_Sync io = sync_err io"

definition os_Remove :: "path \<Rightarrow> world \<Rightarrow> world" where
  "os_Remove name w = w\<lparr>files := (files w)(name := None)\<rparr>"

text \<open>\<^verbatim>\<open>os.Rename\<close> replaces the new path by the old one in one step, or changes nothing.\<close>

definition os_Rename :: "io_faults \<Rightarrow> path \<Rightarrow> path \<Rightarrow> world \<Rightarrow> go_error \<times> world" where
  "os_Rename io oldpath newpath w =
     (case rename_err io of
        Some e \<Rightarrow> (Some e, w)
      | None \<Rightarrow>
          (None, w\<lparr>files := (files w)(oldpath := None, newpath := files w oldpath),
                   events := events w @ [Renamed newpath]\<rparr>))"

text \<open>\<^verbatim>\<open>atomicWriteFile\<close> (lines 28 to 57).\<close>

definition atomicWriteFile :: "io_faults \<Rightarrow> path \<Rightarrow> bytes \<Rightarrow> world \<Rightarrow> go_error \<times> world" where
  "atomicWriteFile io filename data w =
     (let tempFile = filename @ ''.tmp'' in
      case os_OpenFile_excl io tempFile w of
        Inl err \<Rightarrow> (Some (''failed to create temp file: '' @ err), w)
      | Inr w1 \<Rightarrow>
          (case f_Write io tempFile data w1 of
             (Some err, w2) \<Rightarrow>
               (Some (''failed to write temp file: '' @ err), os_Remove tempFile w2)
           | (None, w2) \<Rightarrow>
               (case f_Sync io of
                  Some err \<Rightarrow>
                    (Some (''failed to sync temp file: '' @ err), os_Remove tempFile w2)
                | None \<Rightarrow>
                    (case os_Rename io tempFile filename w2 of
                       (Some err, w3) \<Rightarrow>
                         (Some (''failed to rename temp file: '' @ err), os_Remove tempFile w3)
                     | (None, w3) \<Rightarrow> (None, w3)))))"

text \<open>\<^verbatim>\<open>fileExists\<close> (lines 60 to 63): \<^verbatim>\<open>os.Stat\<close> returns no error.\<close>

definition fileExists :: "path \<Rightarrow> world \<Rightarrow> bool" where
  "fileExists filename w = (files w filename \<noteq> None)"

section \<open>Measurement\<close>

text \<open>
  \<^verbatim>\<open>measureIntoPCR\<close> (lines 21 to 25) is the source's stand-in for the TPM call: it logs
  the measurement and returns \<^verbatim>\<open>nil\<close>.
\<close>

type_synonym measure_fn = "path \<Rightarrow> int \<Rightarrow> world \<Rightarrow> go_error \<times> world"

definition measureIntoPCR :: measure_fn where
  "measureIntoPCR filepath pcrIndex w =
     (None, w\<lparr>events := events w @ [Measuring filepath pcrIndex]\<rparr>)"

section \<open>Requests and replies\<close>

text \<open>
  A handler answers with a status code and a body, or panics (\<^verbatim>\<open>net/http\<close> recovers the
  panic of a handler, logs it and drops the connection: no answer is written).
  \<^verbatim>\<open>http.Error\<close> writes the message and a newline.
\<close>

datatype reply = Reply nat string | Panic string

fun status_of :: "reply \<Rightarrow> nat option" where
  "status_of (Reply code _) = Some code"
| "status_of (Panic _) = None"

abbreviation StatusOK :: nat where "StatusOK \<equiv> 200"
abbreviation StatusCreated :: nat where "StatusCreated \<equiv> 201"
abbreviation StatusBadRequest :: nat where "StatusBadRequest \<equiv> 400"
abbreviation StatusNotFound :: nat where "StatusNotFound \<equiv> 404"
abbreviation StatusMethodNotAllowed :: nat where "StatusMethodNotAllowed \<equiv> 405"
abbreviation StatusConflict :: nat where "StatusConflict \<equiv> 409"
abbreviation StatusInternalServerError :: nat where "StatusInternalServerError \<equiv> 500"

definition http_Error :: "string \<Rightarrow> nat \<Rightarrow> reply" where
  "http_Error msg code = Reply code (msg @ [CHR 0x0A])"

definition writeHeader :: "nat \<Rightarrow> reply" where
  "writeHeader code = Reply code []"

text \<open>
  A part of a multipart form, as \<^verbatim>\<open>r.FormFile\<close> returns it: \<^verbatim>\<open>io.ReadAll\<close> gives its bytes,
  or fails. A request has its method and its form, \<open>None\<close> when \<^verbatim>\<open>ParseMultipartForm\<close>
  fails.
\<close>

datatype multipart_file = File bytes | BrokenFile string

fun io_ReadAll :: "multipart_file \<Rightarrow> string + bytes" where
  "io_ReadAll (File b) = Inr b"
| "io_ReadAll (BrokenFile e) = Inl e"

record request =
  req_method :: string
  multipart :: "(string \<rightharpoonup> multipart_file) option"

section \<open>The upload handler\<close>

text \<open>
  The handler of \<^verbatim>\<open>/upload\<close> (lines 70 to 149) in its two parts. Lines 71 to 120 look at
  the request and at the two paths and change nothing: they end in an answer, or in the
  contents to write (\<^verbatim>\<open>envContent\<close> stays \<^verbatim>\<open>nil\<close>, the empty slice, without a part
  \<^verbatim>\<open>env\<close>).
\<close>

definition upload_check :: "request \<Rightarrow> world \<Rightarrow> reply + (bytes \<times> bytes)" where
  "upload_check r w =
     (if req_method r \<noteq> ''POST'' then Inl (http_Error ''Method not allowed'' StatusMethodNotAllowed)
      else case multipart r of
        None \<Rightarrow> Inl (http_Error ''Failed to parse form'' StatusBadRequest)
      | Some form \<Rightarrow>
         (case form ''pod.yaml'' of
            None \<Rightarrow> Inl (http_Error ''pod.yaml is required'' StatusBadRequest)
          | Some podFile \<Rightarrow>
              if fileExists podYamlPath w
              then Inl (http_Error ''pod.yaml already exists'' StatusConflict)
              else
               (case io_ReadAll podFile of
                  Inl err \<Rightarrow> Inl (http_Error ''Failed to read pod.yaml'' StatusInternalServerError)
                | Inr podContent \<Rightarrow>
                   (case form ''env'' of
                      None \<Rightarrow> Inr (podContent, [])
                    | Some envFile \<Rightarrow>
                        if fileExists envFilePath w
                        then Inl (http_Error ''env already exists'' StatusConflict)
                        else
                         (case io_ReadAll envFile of
                            Inl err \<Rightarrow>
                              Inl (http_Error ''Failed to read env'' StatusInternalServerError)
                          | Inr envContent \<Rightarrow> Inr (podContent, envContent))))))"

text \<open>
  Lines 122 to 148 write and measure. Each of the two calls of \<^verbatim>\<open>atomicWriteFile\<close> meets
  its own answers of the operating system. The measurement is a parameter, so that the
  branches for a failing measurement can be stated; the program is the instance with
  \<^verbatim>\<open>measureIntoPCR\<close>.
\<close>

record upload_env =
  pod_io :: io_faults
  env_io :: io_faults

definition upload_write ::
  "measure_fn \<Rightarrow> upload_env \<Rightarrow> bytes \<Rightarrow> bytes \<Rightarrow> world \<Rightarrow> reply \<times> world" where
  "upload_write meas env podContent envContent w =
     (case atomicWriteFile (pod_io env) podYamlPath podContent w of
        (Some err, w1) \<Rightarrow>
          (http_Error (''Failed to write pod.yaml: '' @ err) StatusInternalServerError, w1)
      | (None, w1) \<Rightarrow>
         (case meas podYamlPath 13 w1 of
            (Some err, w2) \<Rightarrow>
              (http_Error ''Failed to measure pod.yaml'' StatusInternalServerError, w2)
          | (None, w2) \<Rightarrow>
              if length envContent > 0 then
               (case atomicWriteFile (env_io env) envFilePath envContent w2 of
                  (Some err, w3) \<Rightarrow>
                    (http_Error (''Failed to write env: '' @ err) StatusInternalServerError, w3)
                | (None, w3) \<Rightarrow>
                   (case meas envFilePath 14 w3 of
                      (Some err, w4) \<Rightarrow>
                        (http_Error ''Failed to measure env'' StatusInternalServerError, w4)
                    | (None, w4) \<Rightarrow> (writeHeader StatusCreated, w4)))
              else (writeHeader StatusCreated, w2)))"

definition uploadHandler :: "measure_fn \<Rightarrow> upload_env \<Rightarrow> request \<Rightarrow> world \<Rightarrow> reply \<times> world" where
  "uploadHandler meas env r w =
     (case upload_check r w of
        Inl answer \<Rightarrow> (answer, w)
      | Inr (podContent, envContent) \<Rightarrow> upload_write meas env podContent envContent w)"

definition upload :: "upload_env \<Rightarrow> request \<Rightarrow> world \<Rightarrow> reply \<times> world" where
  "upload = uploadHandler measureIntoPCR"

section \<open>The start handler\<close>

text \<open>
  What the host answers to one call of \<^verbatim>\<open>/start\<close>: the result of
  \<^verbatim>\<open>exec.LookPath("podman")\<close>, and of \<^verbatim>\<open>cmd.Run()\<close>, which is \<^verbatim>\<open>cmd.Start()\<close> followed by
  \<^verbatim>\<open>cmd.Wait()\<close>: the error of starting the process, what the process wrote to its two
  outputs, and the error of its exit.
\<close>

record start_env =
  lookPath_err :: go_error
  start_err :: go_error
  run_stdout :: string
  run_stderr :: string
  wait_err :: go_error

definition command :: "world \<Rightarrow> string list" where
  "command w =
     (if fileExists envFilePath w
      then [''sh'', ''-c'', ''. '' @ envFilePath @ '' && podman play kube '' @ podYamlPath]
      else [''podman'', ''play'', ''kube'', podYamlPath])"

definition errorMsg :: "string \<Rightarrow> string \<Rightarrow> string \<Rightarrow> string" where
  "errorMsg out err cause =
     ''Container start failed:'' @ [CHR 0x0A] @ ''Stdout: '' @ out @ [CHR 0x0A]
       @ ''Stderr: '' @ err @ [CHR 0x0A] @ ''Error: '' @ cause"

text \<open>
  The handler of \<^verbatim>\<open>/start\<close> (lines 152 to 208), in two parts as well: up to the start of
  the command (an answer, or the command that now runs), and from its exit on.
  Closing a closed channel panics.
\<close>

definition start_begin :: "start_env \<Rightarrow> request \<Rightarrow> world \<Rightarrow> (reply + string list) \<times> world" where
  "start_begin env r w =
     (if req_method r \<noteq> ''POST''
      then (Inl (http_Error ''Method not allowed'' StatusMethodNotAllowed), w)
      else if \<not> fileExists podYamlPath w
      then (Inl (http_Error ''pod.yaml not found'' StatusNotFound), w)
      else
        let cmd = command w in
        case lookPath_err env of
          Some err \<Rightarrow> (Inl (http_Error ''podman is not installed'' StatusInternalServerError), w)
        | None \<Rightarrow>
           (case start_err env of
              Some err \<Rightarrow> (Inl (http_Error (errorMsg [] [] err) StatusInternalServerError), w)
            | None \<Rightarrow> (Inr cmd, w\<lparr>events := events w @ [EngineStarted cmd]\<rparr>)))"

definition start_finish :: "start_env \<Rightarrow> string list \<Rightarrow> world \<Rightarrow> reply \<times> world" where
  "start_finish env cmd w =
     (let w1 = w\<lparr>events := events w @ [EngineExited cmd]\<rparr> in
      case wait_err env of
        Some err \<Rightarrow>
          (http_Error (errorMsg (run_stdout env) (run_stderr env) err) StatusInternalServerError,
           w1)
      | None \<Rightarrow>
          if shutdownCh_closed w1 then (Panic ''close of closed channel'', w1)
          else (writeHeader StatusOK, w1\<lparr>shutdownCh_closed := True\<rparr>))"

definition startHandler :: "start_env \<Rightarrow> request \<Rightarrow> world \<Rightarrow> reply \<times> world" where
  "startHandler env r w =
     (case start_begin env r w of
        (Inl answer, w1) \<Rightarrow> (answer, w1)
      | (Inr cmd, w1) \<Rightarrow> start_finish env cmd w1)"

section \<open>The service\<close>

text \<open>
  \<^verbatim>\<open>main\<close> (lines 65 to 233) runs three activities: the server, which accepts a request
  and runs its handler as long as \<^verbatim>\<open>server.Close()\<close> has not been called; the goroutine of
  lines 217 to 222, which blocks on \<^verbatim>\<open>shutdownCh\<close>, then calls \<^verbatim>\<open>server.Close()\<close>, then
  \<^verbatim>\<open>wg.Done()\<close>; and \<^verbatim>\<open>main\<close> itself, which sits in \<^verbatim>\<open>ListenAndServe\<close> until the server is
  closed, then in \<^verbatim>\<open>wg.Wait()\<close> until the counter is zero, then returns. A handler runs
  here in one step; the two parts of a handler are interleaved by hand where a claim is
  about overlapping requests.
\<close>

datatype watcher_pc = Blocked | Closing | Closed | Finished

datatype main_pc = Serving | Waiting | Exited

record service =
  host :: world
  server_closed :: bool
  wg :: nat
  watcher :: watcher_pc
  mainpc :: main_pc

text \<open>The state after lines 66, 67 and 216: a new channel is open, the counter is one.\<close>

definition boot :: "world \<Rightarrow> service" where
  "boot w = \<lparr>host = w\<lparr>shutdownCh_closed := False\<rparr>, server_closed = False, wg = 1,
             watcher = Blocked, mainpc = Serving\<rparr>"

datatype action =
    Upload upload_env request
  | Start start_env request
  | WatcherStep
  | MainStep

text \<open>One step of one activity; \<open>None\<close> when the activity cannot move.\<close>

definition step :: "service \<Rightarrow> action \<Rightarrow> service option" where
  "step s a =
     (case a of
        Upload env r \<Rightarrow>
          if server_closed s then None
          else Some (s\<lparr>host := snd (upload env r (host s))\<rparr>)
      | Start env r \<Rightarrow>
          if server_closed s then None
          else Some (s\<lparr>host := snd (startHandler env r (host s))\<rparr>)
      | WatcherStep \<Rightarrow>
         (case watcher s of
            Blocked \<Rightarrow>
              if shutdownCh_closed (host s) then Some (s\<lparr>watcher := Closing\<rparr>) else None
          | Closing \<Rightarrow> Some (s\<lparr>server_closed := True, watcher := Closed\<rparr>)
          | Closed \<Rightarrow> Some (s\<lparr>wg := wg s - 1, watcher := Finished\<rparr>)
          | Finished \<Rightarrow> None)
      | MainStep \<Rightarrow>
         (case mainpc s of
            Serving \<Rightarrow> if server_closed s then Some (s\<lparr>mainpc := Waiting\<rparr>) else None
          | Waiting \<Rightarrow> if wg s = 0 then Some (s\<lparr>mainpc := Exited\<rparr>) else None
          | Exited \<Rightarrow> None))"

fun run :: "service \<Rightarrow> action list \<Rightarrow> service option" where
  "run s [] = Some s"
| "run s (a # as) = (case step s a of None \<Rightarrow> None | Some s' \<Rightarrow> run s' as)"

text \<open>
  The service in its normal state: listening, the goroutine blocked on the open channel.
\<close>

definition serving :: "service \<Rightarrow> bool" where
  "serving s \<longleftrightarrow> \<not> server_closed s \<and> watcher s = Blocked \<and> mainpc s = Serving
                  \<and> \<not> shutdownCh_closed (host s)"

text \<open>
  What holds in every state the service reaches: where the goroutine stands fixes whether
  the channel and the server are closed and what the counter is, and \<^verbatim>\<open>main\<close> is past
  \<^verbatim>\<open>ListenAndServe\<close> only when the server is closed, past \<^verbatim>\<open>wg.Wait()\<close> only when the
  counter is zero.
\<close>

definition shutdown_inv :: "service \<Rightarrow> bool" where
  "shutdown_inv s \<longleftrightarrow>
     (case watcher s of
        Blocked \<Rightarrow> \<not> server_closed s \<and> wg s = 1
      | Closing \<Rightarrow> shutdownCh_closed (host s) \<and> \<not> server_closed s \<and> wg s = 1
      | Closed \<Rightarrow> shutdownCh_closed (host s) \<and> server_closed s \<and> wg s = 1
      | Finished \<Rightarrow> shutdownCh_closed (host s) \<and> server_closed s \<and> wg s = 0)
     \<and> (mainpc s \<noteq> Serving \<longrightarrow> server_closed s)
     \<and> (mainpc s = Exited \<longrightarrow> wg s = 0)"

section \<open>Inputs of the examples\<close>

text \<open>A host with no file and an open channel, and a POST request with the given form.\<close>

definition fresh :: world where
  "fresh = \<lparr>files = Map.empty, events = [], shutdownCh_closed = False\<rparr>"

definition post :: "(string \<rightharpoonup> multipart_file) \<Rightarrow> request" where
  "post form = \<lparr>req_method = ''POST'', multipart = Some form\<rparr>"

text \<open>A host on which every file operation works, and one on which podman runs and exits with 0.\<close>

definition io_ok :: upload_env where
  "io_ok = \<lparr>pod_io = no_faults, env_io = no_faults\<rparr>"

definition engine_ok :: start_env where
  "engine_ok = \<lparr>lookPath_err = None, start_err = None, run_stdout = ''Pod:'',
                 run_stderr = [], wait_err = None\<rparr>"

text \<open>
  A host that holds a pod specification only, a POST request without a body, and the
  service after one successful \<^verbatim>\<open>/start\<close> on that host.
\<close>

definition spec_only :: world where
  "spec_only = fresh\<lparr>files := [podYamlPath \<mapsto> ''spec-v1'']\<rparr>"

definition post_empty :: request where
  "post_empty = \<lparr>req_method = ''POST'', multipart = None\<rparr>"

definition signalled :: service where
  "signalled =
     \<lparr>host = spec_only\<lparr>events := [EngineStarted [''podman'', ''play'', ''kube'', podYamlPath],
                                   EngineExited [''podman'', ''play'', ''kube'', podYamlPath]],
                        shutdownCh_closed := True\<rparr>,
      server_closed = False, wg = 1, watcher = Blocked, mainpc = Serving\<rparr>"

section \<open>The durable write\<close>

lemma temp_neq: "filename @ ''.tmp'' \<noteq> filename"
  by (metis append_self_conv list.distinct(1))

lemma atomicWriteFile_ok:
  assumes "files w (filename @ ''.tmp'') = None" and "io = no_faults"
  shows "atomicWriteFile io filename data w =
           (None, w\<lparr>files := (files w)(filename \<mapsto> data),
                    events := events w @ [Renamed filename]\<rparr>)"
proof -
  have "(files w)(filename @ ''.tmp'' := None) = files w"
    using assms(1) by (simp add: fun_upd_idem)
  then show ?thesis
    using assms temp_neq [of filename]
    by (simp add: atomicWriteFile_def Let_def os_OpenFile_excl_def f_Write_def f_Sync_def
        os_Rename_def no_faults_def fun_upd_twist)
qed

lemma paths_distinct [simp]:
  "podYamlPath \<noteq> envFilePath" "envFilePath \<noteq> podYamlPath"
  "podYamlPath @ ''.tmp'' \<noteq> envFilePath" "envFilePath @ ''.tmp'' \<noteq> podYamlPath"
  "podYamlPath \<noteq> envFilePath @ ''.tmp''" "envFilePath \<noteq> podYamlPath @ ''.tmp''"
  "podYamlPath @ ''.tmp'' \<noteq> envFilePath @ ''.tmp''"
  "envFilePath @ ''.tmp'' \<noteq> podYamlPath @ ''.tmp''"
  by (simp_all add: podYamlPath_def envFilePath_def)

lemma atomicWriteFile_success:
  assumes "atomicWriteFile io filename data w = (None, w')"
  shows "files w (filename @ ''.tmp'') = None
         \<and> w' = w\<lparr>files := (files w)(filename \<mapsto> data),
                   events := events w @ [Renamed filename]\<rparr>"
proof -
  have absent: "files w (filename @ ''.tmp'') = None"
    using assms
    by (auto simp: atomicWriteFile_def Let_def os_OpenFile_excl_def split: if_splits)
  then have idem: "(files w)(filename @ ''.tmp'' := None) = files w"
    by (simp add: fun_upd_idem)
  show ?thesis
    using assms absent idem temp_neq [of filename]
    by (auto simp: atomicWriteFile_def Let_def os_OpenFile_excl_def f_Write_def f_Sync_def
        os_Rename_def os_Remove_def fun_upd_twist split: option.splits prod.splits)
qed

lemma atomicWriteFile_error:
  assumes "atomicWriteFile io filename data w = (Some e, w')"
  shows "files w' = files w \<and> events w' = events w
         \<and> shutdownCh_closed w' = shutdownCh_closed w"
proof (cases "files w (filename @ ''.tmp'')")
  case None
  then have idem: "(files w)(filename @ ''.tmp'' := None) = files w"
    by (simp add: fun_upd_idem)
  show ?thesis
    using assms None idem
    by (auto simp: atomicWriteFile_def Let_def os_OpenFile_excl_def f_Write_def f_Sync_def
        os_Rename_def os_Remove_def split: option.splits prod.splits)
next
  case (Some a)
  then show ?thesis
    using assms by (auto simp: atomicWriteFile_def Let_def os_OpenFile_excl_def)
qed

lemma status_of_http_Error [simp]: "status_of (http_Error msg code) = Some code"
  by (simp add: http_Error_def)

lemma status_of_writeHeader [simp]: "status_of (writeHeader code) = Some code"
  by (simp add: writeHeader_def)

text \<open>
  Claim C4. Whenever the temporary file was created and the write, the sync or the
  rename then fails, \<^verbatim>\<open>atomicWriteFile\<close> returns an error, the temporary file is gone
  afterwards, and the final location holds what it held before (so do all other paths,
  and no rename is recorded).
\<close>

theorem atomicWriteFile_failure_leaves_nothing:
  assumes created: "files w (filename @ ''.tmp'') = None" "open_err io = None"
    and failure: "write_err io \<noteq> None \<or> sync_err io \<noteq> None \<or> rename_err io \<noteq> None"
    and result: "atomicWriteFile io filename data w = (err, w')"
  shows "err \<noteq> None \<and> files w' (filename @ ''.tmp'') = None
         \<and> files w' filename = files w filename \<and> files w' = files w
         \<and> events w' = events w"
proof -
  have idem: "(files w)(filename @ ''.tmp'' := None) = files w"
    using created(1) by (simp add: fun_upd_idem)
  show ?thesis
    using created failure result idem
    by (auto simp: atomicWriteFile_def Let_def os_OpenFile_excl_def f_Write_def f_Sync_def
        os_Rename_def os_Remove_def split: option.splits prod.splits)
qed

text \<open>
  An instance: the disk is full after three bytes of the specification.
\<close>

theorem atomicWriteFile_failure_witness:
  "files fresh (podYamlPath @ ''.tmp'') = None
   \<and> open_err (no_faults\<lparr>write_err := Some (3, ''no space left on device'')\<rparr>) = None
   \<and> write_err (no_faults\<lparr>write_err := Some (3, ''no space left on device'')\<rparr>) \<noteq> None
   \<and> fst (atomicWriteFile (no_faults\<lparr>write_err := Some (3, ''no space left on device'')\<rparr>)
             podYamlPath ''spec-v1'' fresh)
       = Some ''failed to write temp file: no space left on device''
   \<and> files (snd (atomicWriteFile (no_faults\<lparr>write_err := Some (3, ''no space left on device'')\<rparr>)
             podYamlPath ''spec-v1'' fresh)) = Map.empty"
  using atomicWriteFile_failure_leaves_nothing
    [of fresh podYamlPath "no_faults\<lparr>write_err := Some (3, ''no space left on device'')\<rparr>"
       "''spec-v1''"
       "fst (atomicWriteFile (no_faults\<lparr>write_err := Some (3, ''no space left on device'')\<rparr>)
             podYamlPath ''spec-v1'' fresh)"
       "snd (atomicWriteFile (no_faults\<lparr>write_err := Some (3, ''no space left on device'')\<rparr>)
             podYamlPath ''spec-v1'' fresh)"]
  by (simp add: fresh_def no_faults_def atomicWriteFile_def Let_def os_OpenFile_excl_def
      f_Write_def os_Remove_def)

section \<open>Provisioning\<close>

text \<open>
  Claim C1. A POST request whose form parses and carries the part \<^verbatim>\<open>pod.yaml\<close> is an
  attempt to provision the specification, and one for the environment file as well when it
  carries the part \<^verbatim>\<open>env\<close>. When the specification is stored already, the answer is
  Conflict and the host is as before. When the environment file is stored already and the
  request carries the part \<^verbatim>\<open>env\<close>, the host is as before, and the answer is Conflict
  provided the specification part can be read.
\<close>

theorem provision_write_once:
  assumes "req_method r = ''POST''" and "multipart r = Some form"
    and "form ''pod.yaml'' = Some podFile"
  shows "(files w podYamlPath \<noteq> None \<longrightarrow>
            upload env r w = (http_Error ''pod.yaml already exists'' StatusConflict, w))
       \<and> (files w envFilePath \<noteq> None \<and> form ''env'' \<noteq> None \<longrightarrow>
            snd (upload env r w) = w
          \<and> ((\<exists>b. podFile = File b) \<longrightarrow>
                status_of (fst (upload env r w)) = Some StatusConflict))"
  using assms
  by (auto simp: upload_def uploadHandler_def upload_check_def fileExists_def http_Error_def
      split: option.splits sum.splits)

text \<open>
  An instance: both artifacts are stored and a second request brings both again.
\<close>

theorem provision_write_once_witness:
  "upload io_ok (post [''pod.yaml'' \<mapsto> File ''spec-v2'', ''env'' \<mapsto> File ''A=2''])
      (fresh\<lparr>files := [podYamlPath \<mapsto> ''spec-v1'', envFilePath \<mapsto> ''A=1'']\<rparr>)
    = (http_Error ''pod.yaml already exists'' StatusConflict,
       fresh\<lparr>files := [podYamlPath \<mapsto> ''spec-v1'', envFilePath \<mapsto> ''A=1'']\<rparr>)
   \<and> status_of (fst (upload io_ok (post [''pod.yaml'' \<mapsto> File ''spec-v2'', ''env'' \<mapsto> File ''A=2''])
      (fresh\<lparr>files := [podYamlPath \<mapsto> ''spec-v1'', envFilePath \<mapsto> ''A=1'']\<rparr>))) = Some StatusConflict"
  using provision_write_once
    [of "post [''pod.yaml'' \<mapsto> File ''spec-v2'', ''env'' \<mapsto> File ''A=2'']"
        "[''pod.yaml'' \<mapsto> File ''spec-v2'', ''env'' \<mapsto> File ''A=2'']"
        "File ''spec-v2''"
        "fresh\<lparr>files := [podYamlPath \<mapsto> ''spec-v1'', envFilePath \<mapsto> ''A=1'']\<rparr>" io_ok]
  by (simp add: post_def fresh_def http_Error_def)

text \<open>
  The write part of the handler, when it answers Created and when nothing fails.
\<close>

lemma upload_write_created:
  assumes run: "upload_write measureIntoPCR env podContent envContent w = (answer, w')"
    and created: "status_of answer = Some StatusCreated"
  shows "files w' = (if envContent \<noteq> []
                     then (files w)(podYamlPath \<mapsto> podContent, envFilePath \<mapsto> envContent)
                     else (files w)(podYamlPath \<mapsto> podContent))
       \<and> events w' = events w @ [Renamed podYamlPath, Measuring podYamlPath 13]
                        @ (if envContent \<noteq> []
                           then [Renamed envFilePath, Measuring envFilePath 14] else [])
       \<and> shutdownCh_closed w' = shutdownCh_closed w"
proof -
  obtain e1 w1 where pod: "atomicWriteFile (pod_io env) podYamlPath podContent w = (e1, w1)"
    by (cases "atomicWriteFile (pod_io env) podYamlPath podContent w")
  have "e1 = None"
    using run created pod by (cases e1) (auto simp: upload_write_def)
  with pod have w1: "w1 = w\<lparr>files := (files w)(podYamlPath \<mapsto> podContent),
                             events := events w @ [Renamed podYamlPath]\<rparr>"
    using atomicWriteFile_success by blast
  show ?thesis
  proof (cases "envContent = []")
    case True
    then show ?thesis
      using run pod \<open>e1 = None\<close> w1
      by (auto simp: upload_write_def measureIntoPCR_def)
  next
    case False
    let ?w2 = "w1\<lparr>events := events w1 @ [Measuring podYamlPath 13]\<rparr>"
    obtain e3 w3 where env: "atomicWriteFile (env_io env) envFilePath envContent ?w2 = (e3, w3)"
      by (cases "atomicWriteFile (env_io env) envFilePath envContent ?w2")
    have "e3 = None"
      using run created pod \<open>e1 = None\<close> False env
      by (cases e3) (auto simp: upload_write_def measureIntoPCR_def)
    with env have w3: "w3 = ?w2\<lparr>files := (files ?w2)(envFilePath \<mapsto> envContent),
                                 events := events ?w2 @ [Renamed envFilePath]\<rparr>"
      using atomicWriteFile_success by blast
    show ?thesis
      using run pod \<open>e1 = None\<close> False env \<open>e3 = None\<close> w1 w3
      by (auto simp: upload_write_def measureIntoPCR_def)
  qed
qed

lemma upload_write_ok:
  assumes "pod_io env = no_faults" and "env_io env = no_faults"
    and "files w (podYamlPath @ ''.tmp'') = None" and "files w (envFilePath @ ''.tmp'') = None"
  shows "upload_write measureIntoPCR env podContent envContent w =
           (writeHeader StatusCreated,
            w\<lparr>files := (if envContent \<noteq> []
                         then (files w)(podYamlPath \<mapsto> podContent, envFilePath \<mapsto> envContent)
                         else (files w)(podYamlPath \<mapsto> podContent)),
               events := events w @ [Renamed podYamlPath, Measuring podYamlPath 13]
                           @ (if envContent \<noteq> []
                              then [Renamed envFilePath, Measuring envFilePath 14] else [])\<rparr>)"
proof -
  let ?w1 = "w\<lparr>files := (files w)(podYamlPath \<mapsto> podContent),
                events := events w @ [Renamed podYamlPath]\<rparr>"
  let ?w2 = "?w1\<lparr>events := events ?w1 @ [Measuring podYamlPath 13]\<rparr>"
  have pod: "atomicWriteFile (pod_io env) podYamlPath podContent w = (None, ?w1)"
    using assms(1,3) by (rule_tac atomicWriteFile_ok) simp_all
  have env: "atomicWriteFile (env_io env) envFilePath envContent ?w2
               = (None, ?w2\<lparr>files := (files ?w2)(envFilePath \<mapsto> envContent),
                             events := events ?w2 @ [Renamed envFilePath]\<rparr>)"
    using assms(2,4) by (rule_tac atomicWriteFile_ok) simp_all
  show ?thesis
    using pod env by (simp add: upload_write_def measureIntoPCR_def)
qed

text \<open>
  Claim C2. When \<^verbatim>\<open>/upload\<close> answers Created, the effects of the run are, in this order:
  the rename onto the specification's path, its measurement into register 13, and, when
  the environment content is not empty, the rename onto the environment file's path and
  its measurement into register 14. Each artifact that was written is thus measured once,
  after its write, the specification first; and the two paths hold the contents.
\<close>

theorem measured_once_after_write:
  assumes "upload env r w = (answer, w')" and "status_of answer = Some StatusCreated"
  shows "\<exists>podContent envContent.
           upload_check r w = Inr (podContent, envContent)
         \<and> events w' = events w @ [Renamed podYamlPath, Measuring podYamlPath 13]
                          @ (if envContent \<noteq> []
                             then [Renamed envFilePath, Measuring envFilePath 14] else [])
         \<and> files w' podYamlPath = Some podContent
         \<and> (if envContent \<noteq> [] then files w' envFilePath = Some envContent
             else files w' envFilePath = files w envFilePath)"
proof (cases "upload_check r w")
  case (Inl a)
  then have "status_of answer \<noteq> Some StatusCreated"
    using assms(1)
    by (auto simp: upload_def uploadHandler_def upload_check_def
        split: if_splits option.splits sum.splits)
  with assms(2) show ?thesis by simp
next
  case (Inr pe)
  obtain p e where pe: "pe = (p, e)" by (cases pe)
  with Inr assms(1) have "upload_write measureIntoPCR env p e w = (answer, w')"
    by (simp add: upload_def uploadHandler_def)
  from upload_write_created [OF this assms(2)] Inr pe show ?thesis by simp
qed

text \<open>
  An instance: a specification and an environment file on an empty host.
\<close>

theorem measured_once_after_write_witness:
  "status_of (fst (upload io_ok (post [''pod.yaml'' \<mapsto> File ''spec-v1'', ''env'' \<mapsto> File ''A=1'']) fresh))
     = Some StatusCreated
   \<and> events (snd (upload io_ok (post [''pod.yaml'' \<mapsto> File ''spec-v1'', ''env'' \<mapsto> File ''A=1'']) fresh))
     = [Renamed podYamlPath, Measuring podYamlPath 13, Renamed envFilePath, Measuring envFilePath 14]"
proof -
  let ?r = "post [''pod.yaml'' \<mapsto> File ''spec-v1'', ''env'' \<mapsto> File ''A=1'']"
  have chk: "upload_check ?r fresh = Inr (''spec-v1'', ''A=1'')"
    by (simp add: upload_check_def post_def fresh_def fileExists_def)
  have pod: "atomicWriteFile no_faults podYamlPath ''spec-v1'' fresh
      = (None, fresh\<lparr>files := (files fresh)(podYamlPath \<mapsto> ''spec-v1''),
                      events := events fresh @ [Renamed podYamlPath]\<rparr>)"
    by (rule atomicWriteFile_ok) (simp_all add: fresh_def)
  have env: "atomicWriteFile no_faults envFilePath ''A=1''
        (fresh\<lparr>files := [podYamlPath \<mapsto> ''spec-v1''],
               events := [Renamed podYamlPath, Measuring podYamlPath 13]\<rparr>)
      = (None, fresh\<lparr>files := [podYamlPath \<mapsto> ''spec-v1'', envFilePath \<mapsto> ''A=1''],
               events := [Renamed podYamlPath, Measuring podYamlPath 13, Renamed envFilePath]\<rparr>)"
    using atomicWriteFile_ok [of "fresh\<lparr>files := [podYamlPath \<mapsto> ''spec-v1''],
               events := [Renamed podYamlPath, Measuring podYamlPath 13]\<rparr>" envFilePath no_faults "''A=1''"]
    by (simp add: fresh_def)
  have st: "status_of (fst (upload io_ok ?r fresh)) = Some StatusCreated"
    using chk pod env
    by (simp add: upload_def uploadHandler_def upload_write_def io_ok_def measureIntoPCR_def
        fresh_def)
  from measured_once_after_write [of io_ok ?r fresh "fst (upload io_ok ?r fresh)"
      "snd (upload io_ok ?r fresh)"] st chk
  show ?thesis by (simp add: fresh_def)
qed






text \<open>
  The two branches of the handler for a measurement that fails, which
  \<^verbatim>\<open>measureIntoPCR\<close> never takes: they answer with an internal error and end the run with
  the host as it then is.
\<close>

lemma failing_measurement_branches:
  assumes "upload_check r w = Inr (podContent, envContent)"
    and "atomicWriteFile (pod_io env) podYamlPath podContent w = (None, w1)"
  shows "(\<forall>err w2. meas podYamlPath 13 w1 = (Some err, w2) \<longrightarrow>
            uploadHandler meas env r w
              = (http_Error ''Failed to measure pod.yaml'' StatusInternalServerError, w2))
       \<and> (\<forall>w2 w3 err w4. meas podYamlPath 13 w1 = (None, w2) \<and> envContent \<noteq> []
              \<and> atomicWriteFile (env_io env) envFilePath envContent w2 = (None, w3)
              \<and> meas envFilePath 14 w3 = (Some err, w4) \<longrightarrow>
            uploadHandler meas env r w
              = (http_Error ''Failed to measure env'' StatusInternalServerError, w4))"
  using assms
  by (auto simp: uploadHandler_def upload_write_def)

text \<open>
  Claim C5, as it stands, fails: a request that brings the specification in a part named
  \<^verbatim>\<open>podSpec\<close> and the environment in a part named \<^verbatim>\<open>envBundle\<close> is answered with
  BadRequest, and nothing is stored.
\<close>

theorem podSpec_part_not_read:
  "upload io_ok (post [''podSpec'' \<mapsto> File ''spec-v1'', ''envBundle'' \<mapsto> File ''A=1'']) fresh
     = (http_Error ''pod.yaml is required'' StatusBadRequest, fresh)"
  by (simp add: upload_def uploadHandler_def upload_check_def post_def)

lemma upload_check_bad_request:
  assumes "req_method r = ''POST''"
  shows "(\<exists>answer. upload_check r w = Inl answer \<and> status_of answer = Some StatusBadRequest)
         \<longleftrightarrow> (multipart r = None \<or> (\<exists>form. multipart r = Some form \<and> form ''pod.yaml'' = None))"
  using assms
  by (auto simp: upload_check_def split: option.splits sum.splits)

lemma upload_write_not_bad_request:
  "status_of (fst (upload_write measureIntoPCR env p e w)) \<noteq> Some StatusBadRequest"
  by (auto simp: upload_write_def measureIntoPCR_def split: prod.splits option.splits)

text \<open>
  Claim C5, amended. The parts are named \<^verbatim>\<open>pod.yaml\<close> and \<^verbatim>\<open>env\<close>. A POST request is
  answered with BadRequest exactly when its form does not parse or has no part
  \<^verbatim>\<open>pod.yaml\<close>; and when it is answered with Created, the specification's path holds the
  bytes of the part \<^verbatim>\<open>pod.yaml\<close>, and the environment file's path those of the part
  \<^verbatim>\<open>env\<close> when there is one and it is not empty.
\<close>

theorem upload_part_names:
  assumes "req_method r = ''POST''"
  shows "(status_of (fst (upload env r w)) = Some StatusBadRequest
            \<longleftrightarrow> (multipart r = None \<or> (\<exists>form. multipart r = Some form \<and> form ''pod.yaml'' = None)))
       \<and> (status_of (fst (upload env r w)) = Some StatusCreated \<longrightarrow>
            (\<exists>form podContent. multipart r = Some form
               \<and> form ''pod.yaml'' = Some (File podContent)
               \<and> files (snd (upload env r w)) podYamlPath = Some podContent
               \<and> (case form ''env'' of
                    None \<Rightarrow> files (snd (upload env r w)) envFilePath = files w envFilePath
                  | Some envFile \<Rightarrow>
                      \<exists>envContent. envFile = File envContent
                        \<and> (envContent \<noteq> [] \<longrightarrow>
                             files (snd (upload env r w)) envFilePath = Some envContent))))"
proof (intro conjI impI)
  show "status_of (fst (upload env r w)) = Some StatusBadRequest
          \<longleftrightarrow> (multipart r = None \<or> (\<exists>form. multipart r = Some form \<and> form ''pod.yaml'' = None))"
  proof (cases "upload_check r w")
    case (Inl a)
    then have "fst (upload env r w) = a" by (simp add: upload_def uploadHandler_def)
    with Inl upload_check_bad_request [OF assms, of w] show ?thesis by auto
  next
    case (Inr pe)
    then have "status_of (fst (upload env r w)) \<noteq> Some StatusBadRequest"
      using upload_write_not_bad_request
      by (cases pe) (simp add: upload_def uploadHandler_def)
    with Inr upload_check_bad_request [OF assms, of w] show ?thesis by auto
  qed
next
  assume created: "status_of (fst (upload env r w)) = Some StatusCreated"
  obtain answer w' where run: "upload env r w = (answer, w')" by (cases "upload env r w")
  with created have st: "status_of answer = Some StatusCreated" by simp
  show "\<exists>form podContent. multipart r = Some form
               \<and> form ''pod.yaml'' = Some (File podContent)
               \<and> files (snd (upload env r w)) podYamlPath = Some podContent
               \<and> (case form ''env'' of
                    None \<Rightarrow> files (snd (upload env r w)) envFilePath = files w envFilePath
                  | Some envFile \<Rightarrow>
                      \<exists>envContent. envFile = File envContent
                        \<and> (envContent \<noteq> [] \<longrightarrow>
                             files (snd (upload env r w)) envFilePath = Some envContent))"
  proof (cases "upload_check r w")
    case (Inl a)
    then have "status_of answer \<noteq> Some StatusCreated"
      using run
      by (auto simp: upload_def uploadHandler_def upload_check_def
          split: if_splits option.splits sum.splits)
    with st show ?thesis by simp
  next
    case (Inr pe)
    obtain p e where pe: "pe = (p, e)" by (cases pe)
    with Inr run have "upload_write measureIntoPCR env p e w = (answer, w')"
      by (simp add: upload_def uploadHandler_def)
    from upload_write_created [OF this st]
    have fs: "files w' = (if e \<noteq> [] then (files w)(podYamlPath \<mapsto> p, envFilePath \<mapsto> e)
                         else (files w)(podYamlPath \<mapsto> p))" by simp
    from Inr pe obtain form where form: "multipart r = Some form"
      by (auto simp: upload_check_def split: if_splits option.splits)
    from Inr pe form have pod: "form ''pod.yaml'' = Some (File p)"
      by (auto simp: upload_check_def split: if_splits option.splits sum.splits
          elim: io_ReadAll.elims)
    from Inr pe form have env: "case form ''env'' of None \<Rightarrow> e = [] | Some f \<Rightarrow> f = File e"
      by (auto simp: upload_check_def split: if_splits option.splits sum.splits
          elim: io_ReadAll.elims)
    show ?thesis
      using form pod env fs run by (auto split: option.splits)
  qed
qed

text \<open>
  An instance: both parts on an empty host, and a request without the part \<^verbatim>\<open>pod.yaml\<close>.
\<close>

theorem upload_part_names_witness:
  "req_method (post [''pod.yaml'' \<mapsto> File ''spec-v1'', ''env'' \<mapsto> File ''A=1'']) = ''POST''
   \<and> status_of (fst (upload io_ok (post [''pod.yaml'' \<mapsto> File ''spec-v1'', ''env'' \<mapsto> File ''A=1'']) fresh))
       = Some StatusCreated
   \<and> files (snd (upload io_ok (post [''pod.yaml'' \<mapsto> File ''spec-v1'', ''env'' \<mapsto> File ''A=1'']) fresh))
        podYamlPath = Some ''spec-v1''
   \<and> files (snd (upload io_ok (post [''pod.yaml'' \<mapsto> File ''spec-v1'', ''env'' \<mapsto> File ''A=1'']) fresh))
        envFilePath = Some ''A=1''
   \<and> status_of (fst (upload io_ok (post [''env'' \<mapsto> File ''A=1'']) fresh)) = Some StatusBadRequest"
proof -
  let ?r = "post [''pod.yaml'' \<mapsto> File ''spec-v1'', ''env'' \<mapsto> File ''A=1'']"
  have chk: "upload_check ?r fresh = Inr (''spec-v1'', ''A=1'')"
    by (simp add: upload_check_def post_def fresh_def fileExists_def)
  have "upload_write measureIntoPCR io_ok ''spec-v1'' ''A=1'' fresh
          = (writeHeader StatusCreated,
             fresh\<lparr>files := [podYamlPath \<mapsto> ''spec-v1'', envFilePath \<mapsto> ''A=1''],
                   events := [Renamed podYamlPath, Measuring podYamlPath 13,
                              Renamed envFilePath, Measuring envFilePath 14]\<rparr>)"
    using upload_write_ok [of io_ok fresh "''spec-v1''" "''A=1''"]
    by (simp add: io_ok_def fresh_def)
  with chk have st: "status_of (fst (upload io_ok ?r fresh)) = Some StatusCreated"
    by (simp add: upload_def uploadHandler_def)
  from upload_part_names [of ?r io_ok fresh] upload_part_names [of "post [''env'' \<mapsto> File ''A=1'']" io_ok fresh] st
  show ?thesis
    by (auto simp: post_def)
qed

text \<open>
  Claim C10. A request with a specification and an empty part \<^verbatim>\<open>env\<close>, on a host that
  holds neither artifact and on which the write works, is answered with Created; the only
  effects are the write and the measurement of the specification, the environment file's
  path stays empty, and the command that \<^verbatim>\<open>/start\<close> then builds is the one without an
  environment file.
\<close>

theorem empty_env_dropped:
  assumes "req_method r = ''POST''" and "multipart r = Some form"
    and "form ''pod.yaml'' = Some (File podContent)" and "form ''env'' = Some (File [])"
    and "files w podYamlPath = None" and "files w envFilePath = None"
    and "files w (podYamlPath @ ''.tmp'') = None" and "pod_io env = no_faults"
  shows "upload env r w =
           (writeHeader StatusCreated,
            w\<lparr>files := (files w)(podYamlPath \<mapsto> podContent),
               events := events w @ [Renamed podYamlPath, Measuring podYamlPath 13]\<rparr>)
       \<and> files (snd (upload env r w)) envFilePath = None
       \<and> command (snd (upload env r w)) = [''podman'', ''play'', ''kube'', podYamlPath]"
proof -
  have chk: "upload_check r w = Inr (podContent, [])"
    using assms by (simp add: upload_check_def fileExists_def)
  have pod: "atomicWriteFile (pod_io env) podYamlPath podContent w
               = (None, w\<lparr>files := (files w)(podYamlPath \<mapsto> podContent),
                           events := events w @ [Renamed podYamlPath]\<rparr>)"
    using assms(7,8) by (rule_tac atomicWriteFile_ok) simp_all
  have run: "upload env r w =
           (writeHeader StatusCreated,
            w\<lparr>files := (files w)(podYamlPath \<mapsto> podContent),
               events := events w @ [Renamed podYamlPath, Measuring podYamlPath 13]\<rparr>)"
    using chk pod by (simp add: upload_def uploadHandler_def upload_write_def measureIntoPCR_def)
  show ?thesis
    using run assms(6) by (simp add: command_def fileExists_def)
qed

text \<open>
  An instance on an empty host.
\<close>

theorem empty_env_dropped_witness:
  "upload io_ok (post [''pod.yaml'' \<mapsto> File ''spec-v1'', ''env'' \<mapsto> File []]) fresh =
     (writeHeader StatusCreated,
      fresh\<lparr>files := [podYamlPath \<mapsto> ''spec-v1''],
            events := [Renamed podYamlPath, Measuring podYamlPath 13]\<rparr>)
   \<and> command (snd (upload io_ok (post [''pod.yaml'' \<mapsto> File ''spec-v1'', ''env'' \<mapsto> File []]) fresh))
       = [''podman'', ''play'', ''kube'', podYamlPath]"
  using empty_env_dropped
    [of "post [''pod.yaml'' \<mapsto> File ''spec-v1'', ''env'' \<mapsto> File []]"
        "[''pod.yaml'' \<mapsto> File ''spec-v1'', ''env'' \<mapsto> File []]" "''spec-v1''" fresh io_ok]
  by (simp add: post_def fresh_def io_ok_def command_def fileExists_def)

section \<open>Launching\<close>

text \<open>
  Claim C6. A POST to \<^verbatim>\<open>/start\<close> is answered with NotFound exactly when the
  specification's path holds no file, whatever else the state is. With the specification
  and no environment file, and podman found and started, the command that runs is
  \<^verbatim>\<open>podman play kube /tmp/pod.yaml\<close>.
\<close>

theorem launch_not_found_iff_spec_absent:
  assumes "req_method r = ''POST''"
  shows "(status_of (fst (startHandler env r w)) = Some StatusNotFound
            \<longleftrightarrow> files w podYamlPath = None)
       \<and> (files w podYamlPath \<noteq> None \<and> files w envFilePath = None
            \<and> lookPath_err env = None \<and> start_err env = None \<longrightarrow>
          events (snd (startHandler env r w))
            = events w @ [EngineStarted [''podman'', ''play'', ''kube'', podYamlPath],
                          EngineExited [''podman'', ''play'', ''kube'', podYamlPath]])"
  using assms
  by (auto simp: startHandler_def start_begin_def start_finish_def Let_def fileExists_def
      command_def writeHeader_def split: option.splits)

text \<open>
  An instance: an empty host, and a host with the specification only.
\<close>

theorem launch_not_found_witness:
  "status_of (fst (startHandler engine_ok post_empty fresh)) = Some StatusNotFound
   \<and> status_of (fst (startHandler engine_ok post_empty spec_only)) = Some StatusOK
   \<and> events (snd (startHandler engine_ok post_empty spec_only))
       = [EngineStarted [''podman'', ''play'', ''kube'', podYamlPath],
          EngineExited [''podman'', ''play'', ''kube'', podYamlPath]]"
proof -
  have ok: "status_of (fst (startHandler engine_ok post_empty spec_only)) = Some StatusOK"
    by (simp add: startHandler_def start_begin_def start_finish_def Let_def fileExists_def
        post_empty_def spec_only_def fresh_def engine_ok_def)
  from launch_not_found_iff_spec_absent [of post_empty engine_ok fresh]
    launch_not_found_iff_spec_absent [of post_empty engine_ok spec_only] ok
  show ?thesis
    by (simp add: post_empty_def spec_only_def fresh_def engine_ok_def)
qed

text \<open>
  Claim C7. When podman is not found, or the command does not start, or it exits with an
  error, a POST to \<^verbatim>\<open>/start\<close> on a host with the specification is answered with an
  internal error. Its body is \<^verbatim>\<open>podman is not installed\<close> for a missing podman; else it is
  \<^verbatim>\<open>Container start failed:\<close> followed by the lines \<^verbatim>\<open>Stdout:\<close>, \<^verbatim>\<open>Stderr:\<close> and
  \<^verbatim>\<open>Error:\<close> with what the command wrote to its two outputs and with the error. The
  channel and the files stay as they were; and a service in its normal state stays in it,
  the goroutine cannot move, and the next \<^verbatim>\<open>/start\<close> is accepted.
\<close>

theorem launch_failure_surfaced:
  assumes "req_method r = ''POST''" and "files (host s) podYamlPath \<noteq> None"
    and "lookPath_err env \<noteq> None \<or> start_err env \<noteq> None \<or> wait_err env \<noteq> None"
  shows "status_of (fst (startHandler env r (host s))) = Some StatusInternalServerError
       \<and> (lookPath_err env \<noteq> None \<longrightarrow>
            fst (startHandler env r (host s))
              = Reply StatusInternalServerError (''podman is not installed'' @ [CHR 0x0A]))
       \<and> (\<forall>cause. lookPath_err env = None \<and> start_err env = Some cause \<longrightarrow>
            fst (startHandler env r (host s))
              = Reply StatusInternalServerError
                  (''Container start failed:'' @ [CHR 0x0A] @ ''Stdout: '' @ [CHR 0x0A]
                     @ ''Stderr: '' @ [CHR 0x0A] @ ''Error: '' @ cause @ [CHR 0x0A]))
       \<and> (\<forall>cause. lookPath_err env = None \<and> start_err env = None \<and> wait_err env = Some cause \<longrightarrow>
            fst (startHandler env r (host s))
              = Reply StatusInternalServerError
                  (''Container start failed:'' @ [CHR 0x0A]
                     @ ''Stdout: '' @ run_stdout env @ [CHR 0x0A]
                     @ ''Stderr: '' @ run_stderr env @ [CHR 0x0A]
                     @ ''Error: '' @ cause @ [CHR 0x0A]))
       \<and> shutdownCh_closed (snd (startHandler env r (host s))) = shutdownCh_closed (host s)
       \<and> files (snd (startHandler env r (host s))) = files (host s)
       \<and> (serving s \<longrightarrow>
            (\<exists>s'. step s (Start env r) = Some s' \<and> serving s' \<and> step s' WatcherStep = None
                \<and> (\<forall>env' r'. step s' (Start env' r') \<noteq> None)))"
proof -
  have handler:
    "status_of (fst (startHandler env r (host s))) = Some StatusInternalServerError
       \<and> (lookPath_err env \<noteq> None \<longrightarrow>
            fst (startHandler env r (host s))
              = Reply StatusInternalServerError (''podman is not installed'' @ [CHR 0x0A]))
       \<and> (\<forall>cause. lookPath_err env = None \<and> start_err env = Some cause \<longrightarrow>
            fst (startHandler env r (host s))
              = Reply StatusInternalServerError
                  (''Container start failed:'' @ [CHR 0x0A] @ ''Stdout: '' @ [CHR 0x0A]
                     @ ''Stderr: '' @ [CHR 0x0A] @ ''Error: '' @ cause @ [CHR 0x0A]))
       \<and> (\<forall>cause. lookPath_err env = None \<and> start_err env = None \<and> wait_err env = Some cause \<longrightarrow>
            fst (startHandler env r (host s))
              = Reply StatusInternalServerError
                  (''Container start failed:'' @ [CHR 0x0A]
                     @ ''Stdout: '' @ run_stdout env @ [CHR 0x0A]
                     @ ''Stderr: '' @ run_stderr env @ [CHR 0x0A]
                     @ ''Error: '' @ cause @ [CHR 0x0A]))
       \<and> shutdownCh_closed (snd (startHandler env r (host s))) = shutdownCh_closed (host s)
       \<and> files (snd (startHandler env r (host s))) = files (host s)"
    using assms
    by (auto simp: startHandler_def start_begin_def start_finish_def Let_def fileExists_def
        http_Error_def errorMsg_def split: option.splits)
  then have same: "shutdownCh_closed (snd (startHandler env r (host s))) = shutdownCh_closed (host s)"
    by simp
  have service: "serving s \<longrightarrow>
            (\<exists>s'. step s (Start env r) = Some s' \<and> serving s' \<and> step s' WatcherStep = None
                \<and> (\<forall>env' r'. step s' (Start env' r') \<noteq> None))"
    using same by (simp add: serving_def step_def)
  from handler service show ?thesis by simp
qed

text \<open>
  An instance: podman exits with status 125.
\<close>

theorem launch_failure_witness:
  "serving (boot spec_only)
   \<and> fst (startHandler (engine_ok\<lparr>run_stderr := ''Error: no such image'',
                                    wait_err := Some ''exit status 125''\<rparr>)
           post_empty (host (boot spec_only)))
       = Reply 500 (''Container start failed:'' @ [CHR 0x0A] @ ''Stdout: Pod:'' @ [CHR 0x0A]
                    @ ''Stderr: Error: no such image'' @ [CHR 0x0A]
                    @ ''Error: exit status 125'' @ [CHR 0x0A])
   \<and> \<not> shutdownCh_closed (snd (startHandler (engine_ok\<lparr>run_stderr := ''Error: no such image'',
                                    wait_err := Some ''exit status 125''\<rparr>)
           post_empty (host (boot spec_only))))
   \<and> step (boot spec_only) (Start (engine_ok\<lparr>run_stderr := ''Error: no such image'',
                                    wait_err := Some ''exit status 125''\<rparr>) post_empty) \<noteq> None"
  using launch_failure_surfaced
    [of post_empty "boot spec_only"
        "engine_ok\<lparr>run_stderr := ''Error: no such image'', wait_err := Some ''exit status 125''\<rparr>"]
  by (auto simp: post_empty_def boot_def spec_only_def fresh_def engine_ok_def serving_def
      http_Error_def errorMsg_def)

section \<open>Shutdown\<close>

lemma atomicWriteFile_shutdownCh:
  assumes "atomicWriteFile io filename data w = (e, w')"
  shows "shutdownCh_closed w' = shutdownCh_closed w"
proof (cases e)
  case None
  with assms atomicWriteFile_success [of io filename data w w'] show ?thesis by simp
next
  case (Some a)
  with assms atomicWriteFile_error [of io filename data w a w'] show ?thesis by simp
qed

lemma upload_write_shutdownCh:
  "shutdownCh_closed (snd (upload_write measureIntoPCR env p e w)) = shutdownCh_closed w"
proof -
  obtain e1 w1 where pod: "atomicWriteFile (pod_io env) podYamlPath p w = (e1, w1)"
    by (cases "atomicWriteFile (pod_io env) podYamlPath p w")
  let ?w2 = "w1\<lparr>events := events w1 @ [Measuring podYamlPath 13]\<rparr>"
  obtain e3 w3 where env: "atomicWriteFile (env_io env) envFilePath e ?w2 = (e3, w3)"
    by (cases "atomicWriteFile (env_io env) envFilePath e ?w2")
  have 1: "shutdownCh_closed w1 = shutdownCh_closed w"
    using atomicWriteFile_shutdownCh [OF pod] .
  have 3: "shutdownCh_closed w3 = shutdownCh_closed w"
    using atomicWriteFile_shutdownCh [OF env] 1 by simp
  show ?thesis
    using pod env 1 3
    by (cases e1; cases e3) (simp_all add: upload_write_def measureIntoPCR_def)
qed

lemma upload_shutdownCh: "shutdownCh_closed (snd (upload env r w)) = shutdownCh_closed w"
proof (cases "upload_check r w")
  case (Inl a)
  then show ?thesis by (simp add: upload_def uploadHandler_def)
next
  case (Inr pe)
  obtain p e where pe: "pe = (p, e)" by (cases pe)
  with Inr upload_write_shutdownCh [of env p e w] show ?thesis
    by (simp add: upload_def uploadHandler_def)
qed

lemma start_shutdownCh:
  "shutdownCh_closed w \<Longrightarrow> shutdownCh_closed (snd (startHandler env r w))"
  by (auto simp: startHandler_def start_begin_def start_finish_def Let_def
      split: option.splits)

lemma step_shutdownCh:
  "step s a = Some s' \<Longrightarrow> shutdownCh_closed (host s) \<Longrightarrow> shutdownCh_closed (host s')"
  by (cases a)
    (auto simp: step_def upload_shutdownCh start_shutdownCh
      split: if_splits watcher_pc.splits main_pc.splits)

lemma run_shutdownCh:
  "run s as = Some s' \<Longrightarrow> shutdownCh_closed (host s) \<Longrightarrow> shutdownCh_closed (host s')"
proof (induction as arbitrary: s)
  case Nil
  then show ?case by simp
next
  case (Cons a as)
  then show ?case by (auto split: option.splits dest: step_shutdownCh)
qed

lemma step_inv: "step s a = Some s' \<Longrightarrow> shutdown_inv s \<Longrightarrow> shutdown_inv s'"
proof (cases a)
  case (Upload env r)
  assume "step s a = Some s'" "shutdown_inv s"
  with Upload show ?thesis
    by (auto simp: step_def shutdown_inv_def upload_shutdownCh
        split: if_splits watcher_pc.splits)
next
  case (Start env r)
  assume "step s a = Some s'" "shutdown_inv s"
  with Start show ?thesis
    by (auto simp: step_def shutdown_inv_def start_shutdownCh
        split: if_splits watcher_pc.splits)
next
  case WatcherStep
  assume "step s a = Some s'" "shutdown_inv s"
  with WatcherStep show ?thesis
    by (auto simp: step_def shutdown_inv_def split: if_splits watcher_pc.splits)
next
  case MainStep
  assume "step s a = Some s'" "shutdown_inv s"
  with MainStep show ?thesis
    by (auto simp: step_def shutdown_inv_def split: if_splits watcher_pc.splits main_pc.splits)
qed

lemma run_inv: "run s as = Some s' \<Longrightarrow> shutdown_inv s \<Longrightarrow> shutdown_inv s'"
proof (induction as arbitrary: s)
  case Nil
  then show ?case by simp
next
  case (Cons a as)
  then show ?case by (auto split: option.splits dest: step_inv)
qed

lemma boot_inv: "shutdown_inv (boot w)"
  by (simp add: shutdown_inv_def boot_def)

lemma shutdown_completes:
  assumes "shutdown_inv s" and "shutdownCh_closed (host s)" and "watcher s = Blocked"
    and "mainpc s = Serving"
  shows "run s [WatcherStep, WatcherStep, WatcherStep, MainStep, MainStep]
           = Some (s\<lparr>server_closed := True, wg := 0, watcher := Finished, mainpc := Exited\<rparr>)"
  using assms by (simp add: step_def shutdown_inv_def)

lemma launch_success:
  assumes "req_method r = ''POST''" and "files w podYamlPath \<noteq> None"
    and "lookPath_err env = None" and "start_err env = None" and "wait_err env = None"
    and "\<not> shutdownCh_closed w"
  shows "startHandler env r w =
           (writeHeader StatusOK,
            w\<lparr>events := events w @ [EngineStarted (command w), EngineExited (command w)],
               shutdownCh_closed := True\<rparr>)"
  using assms
  by (simp add: startHandler_def start_begin_def start_finish_def Let_def fileExists_def)

text \<open>
  Claim C8, as it stands, fails. After a successful \<^verbatim>\<open>/start\<close> has closed the channel
  and before the goroutine has closed the server, a further request is accepted and
  handled; and a further successful \<^verbatim>\<open>/start\<close> panics on the closed channel instead of
  answering.
\<close>

theorem request_accepted_after_signal:
  "run (boot spec_only) [Start engine_ok post_empty] = Some signalled
   \<and> shutdownCh_closed (host signalled)
   \<and> run signalled [Upload io_ok (post [''pod.yaml'' \<mapsto> File ''spec-v2''])] = Some signalled
   \<and> fst (startHandler engine_ok post_empty (host signalled)) = Panic ''close of closed channel''"
  by (simp add: boot_def spec_only_def fresh_def signalled_def step_def post_empty_def post_def
      engine_ok_def startHandler_def start_begin_def start_finish_def Let_def fileExists_def
      command_def upload_def uploadHandler_def upload_check_def)

text \<open>
  Claim C8, amended. A successful \<^verbatim>\<open>/start\<close> that finds the channel open closes it and
  answers OK. In every state that the service reaches from its start: once the channel is
  closed and the goroutine still blocked, the goroutine and \<^verbatim>\<open>main\<close> can run to the exit;
  once the server is closed, the channel is closed, the goroutine is past
  \<^verbatim>\<open>server.Close()\<close> and no request is accepted; \<^verbatim>\<open>main\<close> has returned only when the
  goroutine has finished; and a closed channel stays closed.
\<close>

theorem success_triggers_shutdown:
  "(req_method r = ''POST'' \<and> files w podYamlPath \<noteq> None \<and> lookPath_err env = None
      \<and> start_err env = None \<and> wait_err env = None \<and> \<not> shutdownCh_closed w \<longrightarrow>
        fst (startHandler env r w) = writeHeader StatusOK
      \<and> shutdownCh_closed (snd (startHandler env r w)))
   \<and> (run (boot w0) as = Some s \<longrightarrow>
        (shutdownCh_closed (host s) \<and> watcher s = Blocked \<longrightarrow>
           run s [WatcherStep, WatcherStep, WatcherStep, MainStep, MainStep]
             = Some (s\<lparr>server_closed := True, wg := 0, watcher := Finished, mainpc := Exited\<rparr>))
      \<and> (server_closed s \<longrightarrow>
           shutdownCh_closed (host s) \<and> (watcher s = Closed \<or> watcher s = Finished)
         \<and> (\<forall>env' r'. step s (Start env' r') = None)
         \<and> (\<forall>env' r'. step s (Upload env' r') = None))
      \<and> (mainpc s = Exited \<longrightarrow> watcher s = Finished \<and> server_closed s)
      \<and> (\<forall>bs s'. shutdownCh_closed (host s) \<and> run s bs = Some s' \<longrightarrow>
            shutdownCh_closed (host s')))"
proof (intro conjI impI allI)
  assume "req_method r = ''POST'' \<and> files w podYamlPath \<noteq> None \<and> lookPath_err env = None
      \<and> start_err env = None \<and> wait_err env = None \<and> \<not> shutdownCh_closed w"
  then have "startHandler env r w =
           (writeHeader StatusOK,
            w\<lparr>events := events w @ [EngineStarted (command w), EngineExited (command w)],
               shutdownCh_closed := True\<rparr>)"
    by (simp add: launch_success)
  then show "fst (startHandler env r w) = writeHeader StatusOK"
    and "shutdownCh_closed (snd (startHandler env r w))"
    by simp_all
next
  assume "run (boot w0) as = Some s"
  then have inv: "shutdown_inv s"
    using boot_inv run_inv by blast
  {
    assume sig: "shutdownCh_closed (host s) \<and> watcher s = Blocked"
    with inv have "mainpc s = Serving"
      by (auto simp: shutdown_inv_def)
    with sig inv show "run s [WatcherStep, WatcherStep, WatcherStep, MainStep, MainStep]
             = Some (s\<lparr>server_closed := True, wg := 0, watcher := Finished, mainpc := Exited\<rparr>)"
      using shutdown_completes [of s] by simp
  }
  {
    assume closed: "server_closed s"
    with inv show "shutdownCh_closed (host s)"
      by (cases "watcher s") (auto simp: shutdown_inv_def)
    from closed inv show "watcher s = Closed \<or> watcher s = Finished"
      by (cases "watcher s") (auto simp: shutdown_inv_def)
    {
      fix env' r'
      from closed show "step s (Start env' r') = None" by (simp add: step_def)
    }
    {
      fix env' r'
      from closed show "step s (Upload env' r') = None" by (simp add: step_def)
    }
  }
  {
    assume "mainpc s = Exited"
    with inv show "watcher s = Finished" and "server_closed s"
      by (cases "watcher s"; auto simp: shutdown_inv_def)+
  }
  {
    fix bs s'
    assume "shutdownCh_closed (host s) \<and> run s bs = Some s'"
    then show "shutdownCh_closed (host s')"
      using run_shutdownCh by blast
  }
qed

text \<open>
  An instance: one successful \<^verbatim>\<open>/start\<close>, then the goroutine and \<^verbatim>\<open>main\<close> to the end.
\<close>

theorem success_triggers_shutdown_witness:
  "fst (startHandler engine_ok post_empty spec_only) = writeHeader StatusOK
   \<and> run (boot spec_only) [Start engine_ok post_empty] = Some signalled
   \<and> run signalled [WatcherStep, WatcherStep, WatcherStep, MainStep, MainStep]
       = Some (signalled\<lparr>server_closed := True, wg := 0, watcher := Finished, mainpc := Exited\<rparr>)
   \<and> run (boot spec_only)
         [Start engine_ok post_empty, WatcherStep, WatcherStep, WatcherStep, MainStep, MainStep]
       = Some (signalled\<lparr>server_closed := True, wg := 0, watcher := Finished, mainpc := Exited\<rparr>)
   \<and> step (signalled\<lparr>server_closed := True, wg := 0, watcher := Finished, mainpc := Exited\<rparr>)
         (Start engine_ok post_empty) = None"
proof -
  let ?final = "signalled\<lparr>server_closed := True, wg := 0, watcher := Finished, mainpc := Exited\<rparr>"
  have h: "req_method post_empty = ''POST'' \<and> files spec_only podYamlPath \<noteq> None
      \<and> lookPath_err engine_ok = None \<and> start_err engine_ok = None \<and> wait_err engine_ok = None
      \<and> \<not> shutdownCh_closed spec_only"
    by (simp add: post_empty_def spec_only_def fresh_def engine_ok_def)
  have first: "run (boot spec_only) [Start engine_ok post_empty] = Some signalled"
    by (simp add: boot_def spec_only_def fresh_def signalled_def step_def post_empty_def
        engine_ok_def startHandler_def start_begin_def start_finish_def Let_def fileExists_def
        command_def)
  have sig: "shutdownCh_closed (host signalled) \<and> watcher signalled = Blocked"
    by (simp add: signalled_def)
  have rest: "run signalled [WatcherStep, WatcherStep, WatcherStep, MainStep, MainStep] = Some ?final"
    using success_triggers_shutdown [of post_empty spec_only engine_ok spec_only
        "[Start engine_ok post_empty]" signalled] first sig
    by simp
  have step1: "step (boot spec_only) (Start engine_ok post_empty) = Some signalled"
    using first by (simp split: option.splits)
  have all: "run (boot spec_only)
         [Start engine_ok post_empty, WatcherStep, WatcherStep, WatcherStep, MainStep, MainStep]
       = Some ?final"
    using step1 rest by simp
  have closed: "server_closed ?final" by simp
  from success_triggers_shutdown [of post_empty spec_only engine_ok spec_only
        "[Start engine_ok post_empty, WatcherStep, WatcherStep, WatcherStep, MainStep, MainStep]"
        ?final] h all closed
  have "fst (startHandler engine_ok post_empty spec_only) = writeHeader StatusOK"
    and "step ?final (Start engine_ok post_empty) = None"
    by blast+
  with first rest all show ?thesis by simp
qed

section \<open>Overlapping requests\<close>

lemma upload_write_temp_present:
  assumes "files w (podYamlPath @ ''.tmp'') \<noteq> None"
  shows "upload_write meas env podContent envContent w =
           (http_Error (''Failed to write pod.yaml: failed to create temp file: open ''
                          @ podYamlPath @ ''.tmp: file exists'') StatusInternalServerError, w)"
  using assms
  by (simp add: upload_write_def atomicWriteFile_def Let_def os_OpenFile_excl_def)

lemma start_begin_starts:
  assumes "req_method r = ''POST''" and "files w podYamlPath \<noteq> None"
    and "lookPath_err env = None" and "start_err env = None"
  shows "start_begin env r w = (Inr (command w), w\<lparr>events := events w @ [EngineStarted (command w)]\<rparr>)"
  using assms by (simp add: start_begin_def Let_def fileExists_def)

text \<open>
  Claim C9, as it stands, fails. Two uploads of a specification that both pass the checks
  on an empty host before either writes are both answered with Created; the second write
  replaces the first and the register is extended twice. Two calls of \<^verbatim>\<open>/start\<close> both
  start the command, the second while the first still runs.
\<close>

theorem overlapping_requests_both_succeed:
  "upload_check (post [''pod.yaml'' \<mapsto> File ''spec-A'']) fresh = Inr (''spec-A'', [])
   \<and> upload_check (post [''pod.yaml'' \<mapsto> File ''spec-B'']) fresh = Inr (''spec-B'', [])
   \<and> upload_write measureIntoPCR io_ok ''spec-A'' [] fresh
       = (writeHeader StatusCreated,
          fresh\<lparr>files := [podYamlPath \<mapsto> ''spec-A''],
                events := [Renamed podYamlPath, Measuring podYamlPath 13]\<rparr>)
   \<and> upload_write measureIntoPCR io_ok ''spec-B'' []
         (fresh\<lparr>files := [podYamlPath \<mapsto> ''spec-A''],
                events := [Renamed podYamlPath, Measuring podYamlPath 13]\<rparr>)
       = (writeHeader StatusCreated,
          fresh\<lparr>files := [podYamlPath \<mapsto> ''spec-B''],
                events := [Renamed podYamlPath, Measuring podYamlPath 13,
                           Renamed podYamlPath, Measuring podYamlPath 13]\<rparr>)
   \<and> start_begin engine_ok post_empty spec_only
       = (Inr [''podman'', ''play'', ''kube'', podYamlPath],
          spec_only\<lparr>events := [EngineStarted [''podman'', ''play'', ''kube'', podYamlPath]]\<rparr>)
   \<and> start_begin engine_ok post_empty
         (spec_only\<lparr>events := [EngineStarted [''podman'', ''play'', ''kube'', podYamlPath]]\<rparr>)
       = (Inr [''podman'', ''play'', ''kube'', podYamlPath],
          spec_only\<lparr>events := [EngineStarted [''podman'', ''play'', ''kube'', podYamlPath],
                                 EngineStarted [''podman'', ''play'', ''kube'', podYamlPath]]\<rparr>)"
proof -
  have a: "upload_write measureIntoPCR io_ok ''spec-A'' [] fresh
       = (writeHeader StatusCreated,
          fresh\<lparr>files := [podYamlPath \<mapsto> ''spec-A''],
                events := [Renamed podYamlPath, Measuring podYamlPath 13]\<rparr>)"
    using upload_write_ok [of io_ok fresh "''spec-A''" "[]"]
    by (simp add: io_ok_def fresh_def)
  have b: "upload_write measureIntoPCR io_ok ''spec-B'' []
         (fresh\<lparr>files := [podYamlPath \<mapsto> ''spec-A''],
                events := [Renamed podYamlPath, Measuring podYamlPath 13]\<rparr>)
       = (writeHeader StatusCreated,
          fresh\<lparr>files := [podYamlPath \<mapsto> ''spec-B''],
                events := [Renamed podYamlPath, Measuring podYamlPath 13,
                           Renamed podYamlPath, Measuring podYamlPath 13]\<rparr>)"
    using upload_write_ok [of io_ok "fresh\<lparr>files := [podYamlPath \<mapsto> ''spec-A''],
                events := [Renamed podYamlPath, Measuring podYamlPath 13]\<rparr>" "''spec-B''" "[]"]
    by (simp add: io_ok_def fresh_def)
  have c: "start_begin engine_ok post_empty spec_only
       = (Inr [''podman'', ''play'', ''kube'', podYamlPath],
          spec_only\<lparr>events := [EngineStarted [''podman'', ''play'', ''kube'', podYamlPath]]\<rparr>)"
    by (simp add: start_begin_def Let_def fileExists_def command_def post_empty_def
        spec_only_def fresh_def engine_ok_def)
  have d: "start_begin engine_ok post_empty
         (spec_only\<lparr>events := [EngineStarted [''podman'', ''play'', ''kube'', podYamlPath]]\<rparr>)
       = (Inr [''podman'', ''play'', ''kube'', podYamlPath],
          spec_only\<lparr>events := [EngineStarted [''podman'', ''play'', ''kube'', podYamlPath],
                                 EngineStarted [''podman'', ''play'', ''kube'', podYamlPath]]\<rparr>)"
    by (simp add: start_begin_def Let_def fileExists_def command_def post_empty_def
        spec_only_def fresh_def engine_ok_def)
  show ?thesis
    using a b c d by (simp add: upload_check_def post_def fresh_def fileExists_def)
qed

text \<open>
  Claim C9, amended. The handlers take no lock. Two uploads that both pass the checks on
  the same host, and then write one after the other with no failure, are both answered
  with Created: the second content replaces the first and every register involved is
  extended again. The one exclusion is that of the temporary file: a write that finds it
  present is answered with an internal error and changes nothing. Two calls of
  \<^verbatim>\<open>/start\<close> both start the command, with no exit in between.
\<close>

theorem no_mutual_exclusion:
  "(upload_check rA w = Inr (a, ea) \<and> upload_check rB w = Inr (b, eb)
      \<and> files w (podYamlPath @ ''.tmp'') = None \<and> files w (envFilePath @ ''.tmp'') = None \<longrightarrow>
      (\<exists>wA wB. upload_write measureIntoPCR io_ok a ea w = (writeHeader StatusCreated, wA)
         \<and> upload_write measureIntoPCR io_ok b eb wA = (writeHeader StatusCreated, wB)
         \<and> files wB podYamlPath = Some b
         \<and> (eb \<noteq> [] \<longrightarrow> files wB envFilePath = Some eb)
         \<and> events wB = events w
              @ [Renamed podYamlPath, Measuring podYamlPath 13]
              @ (if ea \<noteq> [] then [Renamed envFilePath, Measuring envFilePath 14] else [])
              @ [Renamed podYamlPath, Measuring podYamlPath 13]
              @ (if eb \<noteq> [] then [Renamed envFilePath, Measuring envFilePath 14] else [])))
   \<and> (files wt (podYamlPath @ ''.tmp'') \<noteq> None \<longrightarrow>
        upload_write meas env a ea wt =
          (http_Error (''Failed to write pod.yaml: failed to create temp file: open ''
                         @ podYamlPath @ ''.tmp: file exists'') StatusInternalServerError, wt))
   \<and> (req_method r = ''POST'' \<and> req_method r' = ''POST'' \<and> files ws podYamlPath \<noteq> None
        \<and> lookPath_err senv = None \<and> start_err senv = None
        \<and> lookPath_err senv' = None \<and> start_err senv' = None \<longrightarrow>
        (\<exists>w1 w2. start_begin senv r ws = (Inr (command ws), w1)
           \<and> start_begin senv' r' w1 = (Inr (command ws), w2)
           \<and> events w2 = events ws @ [EngineStarted (command ws), EngineStarted (command ws)]))"
proof (intro conjI impI)
  assume h: "upload_check rA w = Inr (a, ea) \<and> upload_check rB w = Inr (b, eb)
      \<and> files w (podYamlPath @ ''.tmp'') = None \<and> files w (envFilePath @ ''.tmp'') = None"
  let ?fA = "if ea \<noteq> [] then (files w)(podYamlPath \<mapsto> a, envFilePath \<mapsto> ea)
             else (files w)(podYamlPath \<mapsto> a)"
  let ?eA = "events w @ [Renamed podYamlPath, Measuring podYamlPath 13]
               @ (if ea \<noteq> [] then [Renamed envFilePath, Measuring envFilePath 14] else [])"
  let ?wA = "w\<lparr>files := ?fA, events := ?eA\<rparr>"
  let ?fB = "if eb \<noteq> [] then (files ?wA)(podYamlPath \<mapsto> b, envFilePath \<mapsto> eb)
             else (files ?wA)(podYamlPath \<mapsto> b)"
  let ?eB = "events ?wA @ [Renamed podYamlPath, Measuring podYamlPath 13]
               @ (if eb \<noteq> [] then [Renamed envFilePath, Measuring envFilePath 14] else [])"
  let ?wB = "?wA\<lparr>files := ?fB, events := ?eB\<rparr>"
  have first: "upload_write measureIntoPCR io_ok a ea w = (writeHeader StatusCreated, ?wA)"
    using h by (intro upload_write_ok) (simp_all add: io_ok_def)
  have second: "upload_write measureIntoPCR io_ok b eb ?wA = (writeHeader StatusCreated, ?wB)"
    using h by (intro upload_write_ok) (simp_all add: io_ok_def)
  have "files ?wB podYamlPath = Some b" by simp
  moreover have "eb \<noteq> [] \<longrightarrow> files ?wB envFilePath = Some eb" by simp
  moreover have "events ?wB = events w
              @ [Renamed podYamlPath, Measuring podYamlPath 13]
              @ (if ea \<noteq> [] then [Renamed envFilePath, Measuring envFilePath 14] else [])
              @ [Renamed podYamlPath, Measuring podYamlPath 13]
              @ (if eb \<noteq> [] then [Renamed envFilePath, Measuring envFilePath 14] else [])"
    by simp
  ultimately show "\<exists>wA wB. upload_write measureIntoPCR io_ok a ea w = (writeHeader StatusCreated, wA)
         \<and> upload_write measureIntoPCR io_ok b eb wA = (writeHeader StatusCreated, wB)
         \<and> files wB podYamlPath = Some b
         \<and> (eb \<noteq> [] \<longrightarrow> files wB envFilePath = Some eb)
         \<and> events wB = events w
              @ [Renamed podYamlPath, Measuring podYamlPath 13]
              @ (if ea \<noteq> [] then [Renamed envFilePath, Measuring envFilePath 14] else [])
              @ [Renamed podYamlPath, Measuring podYamlPath 13]
              @ (if eb \<noteq> [] then [Renamed envFilePath, Measuring envFilePath 14] else [])"
    using first second by blast
next
  assume "files wt (podYamlPath @ ''.tmp'') \<noteq> None"
  then show "upload_write meas env a ea wt =
          (http_Error (''Failed to write pod.yaml: failed to create temp file: open ''
                         @ podYamlPath @ ''.tmp: file exists'') StatusInternalServerError, wt)"
    by (rule upload_write_temp_present)
next
  assume h: "req_method r = ''POST'' \<and> req_method r' = ''POST'' \<and> files ws podYamlPath \<noteq> None
        \<and> lookPath_err senv = None \<and> start_err senv = None
        \<and> lookPath_err senv' = None \<and> start_err senv' = None"
  let ?w1 = "ws\<lparr>events := events ws @ [EngineStarted (command ws)]\<rparr>"
  have c: "command ?w1 = command ws" by (simp add: command_def fileExists_def)
  have 1: "start_begin senv r ws = (Inr (command ws), ?w1)"
    using h by (simp add: start_begin_starts)
  have 2: "start_begin senv' r' ?w1
             = (Inr (command ws), ?w1\<lparr>events := events ?w1 @ [EngineStarted (command ws)]\<rparr>)"
    using h start_begin_starts [of r' ?w1 senv'] c by simp
  show "\<exists>w1 w2. start_begin senv r ws = (Inr (command ws), w1)
           \<and> start_begin senv' r' w1 = (Inr (command ws), w2)
           \<and> events w2 = events ws @ [EngineStarted (command ws), EngineStarted (command ws)]"
    using 1 2 by simp
qed

text \<open>
  An instance: two specifications on an empty host, a write that meets the temporary file
  of another, and two calls of \<^verbatim>\<open>/start\<close> on a host with the specification.
\<close>

theorem no_mutual_exclusion_witness:
  "upload_check (post [''pod.yaml'' \<mapsto> File ''spec-A'']) fresh = Inr (''spec-A'', [])
   \<and> upload_check (post [''pod.yaml'' \<mapsto> File ''spec-B'']) fresh = Inr (''spec-B'', [])
   \<and> (\<exists>wA wB. upload_write measureIntoPCR io_ok ''spec-A'' [] fresh = (writeHeader StatusCreated, wA)
         \<and> upload_write measureIntoPCR io_ok ''spec-B'' [] wA = (writeHeader StatusCreated, wB)
         \<and> files wB podYamlPath = Some ''spec-B'')
   \<and> fst (upload_write measureIntoPCR io_ok ''spec-A'' []
            (fresh\<lparr>files := [podYamlPath @ ''.tmp'' \<mapsto> ''spe'']\<rparr>))
       = Reply 500 (''Failed to write pod.yaml: failed to create temp file: ''
                    @ ''open /tmp/pod.yaml.tmp: file exists'' @ [CHR 0x0A])
   \<and> (\<exists>w1 w2. start_begin engine_ok post_empty spec_only = (Inr (command spec_only), w1)
         \<and> start_begin engine_ok post_empty w1 = (Inr (command spec_only), w2)
         \<and> events w2 = [EngineStarted (command spec_only), EngineStarted (command spec_only)])"
proof -
  have a: "upload_check (post [''pod.yaml'' \<mapsto> File ''spec-A'']) fresh = Inr (''spec-A'', [])"
    by (simp add: upload_check_def post_def fresh_def fileExists_def)
  have b: "upload_check (post [''pod.yaml'' \<mapsto> File ''spec-B'']) fresh = Inr (''spec-B'', [])"
    by (simp add: upload_check_def post_def fresh_def fileExists_def)
  have t: "files (fresh\<lparr>files := [podYamlPath @ ''.tmp'' \<mapsto> ''spe'']\<rparr>) (podYamlPath @ ''.tmp'') \<noteq> None"
    by simp
  have s: "req_method post_empty = ''POST'' \<and> files spec_only podYamlPath \<noteq> None
           \<and> lookPath_err engine_ok = None \<and> start_err engine_ok = None"
    by (simp add: post_empty_def spec_only_def engine_ok_def)
  have e: "events spec_only = []" "files fresh (podYamlPath @ ''.tmp'') = None"
    "files fresh (envFilePath @ ''.tmp'') = None"
    by (simp_all add: spec_only_def fresh_def)
  from no_mutual_exclusion
    [of "post [''pod.yaml'' \<mapsto> File ''spec-A'']" fresh "''spec-A''" "[]"
        "post [''pod.yaml'' \<mapsto> File ''spec-B'']" "''spec-B''" "[]"
        "fresh\<lparr>files := [podYamlPath @ ''.tmp'' \<mapsto> ''spe'']\<rparr>" measureIntoPCR io_ok
        post_empty post_empty spec_only engine_ok engine_ok]
    a b t s e
  show ?thesis
    by (simp add: http_Error_def podYamlPath_def) blast
qed

end
